theory Spec2Isabelle
  imports Main
begin

text \<open>
  The warehouse frontend: three React pages (\<^verbatim>\<open>UploadPage\<close>, \<^verbatim>\<open>DashboardPage\<close>,
  \<^verbatim>\<open>AnalyticsPage\<close>) over one axios client. Each handler is a function from the page's
  state, the backend and the effects so far to the new state and the effects after it;
  what a handler throws or returns is a value.
\<close>

section \<open>JavaScript values\<close>

text \<open>
  The pages exchange JSON with the backend and test it with JavaScript's own operators
  (\<^verbatim>\<open>||\<close>, \<^verbatim>\<open>&&\<close>, \<^verbatim>\<open>!\<close>, \<^verbatim>\<open>?.\<close>, property reads). A value is what \<^verbatim>\<open>JSON.parse\<close>
  builds, plus \<^verbatim>\<open>undefined\<close> (a missing property, an empty state slot).

  \<^item> Numbers are the integer counters the backend reports; fractions, the rounding of
    doubles and the exponent notation of very large numbers are outside this value model.
  \<^item> Strings are byte strings (ASCII text; a character beyond ASCII is carried as its
    UTF-8 bytes and treated as an opaque non-blank letter).
  \<^item> An object holds its own properties in the order JavaScript enumerates them, which
    is the order \<^verbatim>\<open>Object.entries\<close> returns; a property read takes the first entry
    with the key.
\<close>

datatype jsval =
    JUndefined
  | JNull
  | JBool bool
  | JNum int
  | JStr string
  | JArr "jsval list"
  | JObj "(string \<times> jsval) list"

text \<open>ToBoolean: what \<^verbatim>\<open>if (v)\<close>, \<^verbatim>\<open>!v\<close>, \<^verbatim>\<open>v || w\<close> and \<^verbatim>\<open>v && w\<close> test.\<close>

fun truthy :: "jsval \<Rightarrow> bool" where
  "truthy JUndefined = False"
| "truthy JNull = False"
| "truthy (JBool b) = b"
| "truthy (JNum n) = (n \<noteq> 0)"
| "truthy (JStr s) = (s \<noteq> [])"
| "truthy (JArr xs) = True"
| "truthy (JObj kvs) = True"

text \<open>\<^verbatim>\<open>a || b\<close>\<close>

definition js_or :: "jsval \<Rightarrow> jsval \<Rightarrow> jsval" where
  "js_or a b = (if truthy a then a else b)"

subsection \<open>Thrown objects\<close>

text \<open>
  Everything the handlers catch is an object with a \<^verbatim>\<open>message\<close>; an axios rejection also
  carries \<^verbatim>\<open>response\<close> (the server answered with a status outside 2xx) and
  \<^verbatim>\<open>request\<close> (the request was sent). A plain \<^verbatim>\<open>Error\<close> or \<^verbatim>\<open>TypeError\<close> has neither.
\<close>

record response =
  resp_status :: nat
  resp_data :: jsval

record js_error =
  err_response :: "response option"
  err_request :: bool
  err_message :: string

definition plain_Error :: "string \<Rightarrow> js_error" where
  "plain_Error msg = \<lparr>err_response = None, err_request = False, err_message = msg\<rparr>"

text \<open>
  Reading a property of \<^verbatim>\<open>null\<close> or \<^verbatim>\<open>undefined\<close> throws a TypeError (the wording
  of its message is the engine's; V8's is used here).
\<close>

definition nullish_name :: "jsval \<Rightarrow> string" where
  "nullish_name v = (if v = JNull then ''null'' else ''undefined'')"

definition TypeError_read :: "jsval \<Rightarrow> string \<Rightarrow> js_error" where
  "TypeError_read v k =
     plain_Error (''Cannot read properties of '' @ nullish_name v @ '' (reading '' @ [CHR 0x27] @ k @ [CHR 0x27] @ '')'')"

text \<open>
  \<^verbatim>\<open>v.k\<close> for the property names the pages read (none of them is a built-in property
  of strings, numbers or arrays).
\<close>

fun js_get :: "jsval \<Rightarrow> string \<Rightarrow> js_error + jsval" where
  "js_get JUndefined k = Inl (TypeError_read JUndefined k)"
| "js_get JNull k = Inl (TypeError_read JNull k)"
| "js_get (JObj kvs) k = Inr (case map_of kvs k of None \<Rightarrow> JUndefined | Some v \<Rightarrow> v)"
| "js_get v k = Inr JUndefined"

text \<open>\<^verbatim>\<open>v?.k\<close>: \<^verbatim>\<open>undefined\<close> instead of a TypeError.\<close>

definition js_get_opt :: "jsval \<Rightarrow> string \<Rightarrow> jsval" where
  "js_get_opt v k = (case js_get v k of Inl e \<Rightarrow> JUndefined | Inr w \<Rightarrow> w)"

subsection \<open>Conversion to string\<close>

definition digit_char :: "nat \<Rightarrow> char" where
  "digit_char d = ''0123456789'' ! (d mod 10)"

fun show_nat :: "nat \<Rightarrow> string" where
  "show_nat n = (if n < 10 then [digit_char n] else show_nat (n div 10) @ [digit_char n])"

declare show_nat.simps [simp del]

definition show_int :: "int \<Rightarrow> string" where
  "show_int i = (if i < 0 then CHR ''-'' # show_nat (nat (- i)) else show_nat (nat i))"

text \<open>\<^verbatim>\<open>xs.join(',')\<close> on strings already converted.\<close>

fun join_comma :: "string list \<Rightarrow> string" where
  "join_comma [] = []"
| "join_comma [s] = s"
| "join_comma (s # t # ss) = s @ '','' @ join_comma (t # ss)"

text \<open>The first error of a list of results, or all the values.\<close>

fun collect :: "('e + 'a) list \<Rightarrow> 'e + 'a list" where
  "collect [] = Inr []"
| "collect (Inl e # rs) = Inl e"
| "collect (Inr x # rs) = (case collect rs of Inl e \<Rightarrow> Inl e | Inr xs \<Rightarrow> Inr (x # xs))"

text \<open>
  ToString, as \<^verbatim>\<open>new Error(v)\<close> and a template literal apply it. An array joins its
  elements with commas (\<^verbatim>\<open>null\<close> and \<^verbatim>\<open>undefined\<close> elements as the empty string); a
  plain object is \<^verbatim>\<open>[object Object]\<close>, unless it has an own property \<^verbatim>\<open>toString\<close>:
  a JSON value is never callable, so the conversion then finds no primitive and throws.
\<close>

fun ToString :: "jsval \<Rightarrow> js_error + string" where
  "ToString JUndefined = Inr ''undefined''"
| "ToString JNull = Inr ''null''"
| "ToString (JBool b) = Inr (if b then ''true'' else ''false'')"
| "ToString (JNum n) = Inr (show_int n)"
| "ToString (JStr s) = Inr s"
| "ToString (JArr xs) =
     (case collect (map (\<lambda>x. if x = JUndefined \<or> x = JNull then Inr [] else ToString x) xs) of
        Inl e \<Rightarrow> Inl e
      | Inr ss \<Rightarrow> Inr (join_comma ss))"
| "ToString (JObj kvs) =
     (if ''toString'' \<in> set (map fst kvs)
      then Inl (plain_Error ''Cannot convert object to primitive value'')
      else Inr ''[object Object]'')"

text \<open>\<^verbatim>\<open>new Error(v)\<close>: the Error built, or what the conversion of \<open>v\<close> threw.\<close>

definition new_Error :: "jsval \<Rightarrow> js_error" where
  "new_Error v = (case ToString v of Inl e \<Rightarrow> e | Inr s \<Rightarrow> plain_Error s)"

section \<open>The HTTP client\<close>

text \<open>
  \<^verbatim>\<open>axios.js\<close> creates the one client every page imports: a base URL, a default JSON content
  type, no credentials. A call on it sends one request and settles once, either with a
  response or with a rejection; the client has no retry and no interceptor.
\<close>

datatype http_method = GET | POST

datatype upload_file = File string

datatype req_body = NoBody | FormData upload_file | JsonBody jsval

record request =
  req_method :: http_method
  req_baseURL :: string
  req_url :: string
  req_body :: req_body
  req_contentType :: string
  req_responseType :: "string option"

definition axiosInstance_baseURL :: string where
  "axiosInstance_baseURL = ''https://warehouse-management-system-isjh.onrender.com''"

definition axiosInstance :: "http_method \<Rightarrow> string \<Rightarrow> req_body \<Rightarrow> request" where
  "axiosInstance m u b =
     \<lparr>req_method = m, req_baseURL = axiosInstance_baseURL, req_url = u, req_body = b,
      req_contentType = ''application/json'', req_responseType = None\<rparr>"

text \<open>
  What a handler does to the world, in order: requests sent, lines written to the console
  (the label only), timers awaited (milliseconds) and files offered for download.
\<close>

datatype effect = Net request | Console string | Sleep nat | Download string

fun requests_of :: "effect list \<Rightarrow> request list" where
  "requests_of [] = []"
| "requests_of (Net r # es) = r # requests_of es"
| "requests_of (e # es) = requests_of es"

text \<open>
  The backend is not part of the repository: it is any function from the requests it has
  received so far and the request arriving to how that request settles.
\<close>

type_synonym backend = "request list \<Rightarrow> request \<Rightarrow> js_error + response"

definition axios_send :: "backend \<Rightarrow> effect list \<Rightarrow> request \<Rightarrow> (js_error + response) \<times> effect list" where
  "axios_send net log req = (net (requests_of log) req, log @ [Net req])"

section \<open>UploadPage\<close>

text \<open>The five \<^verbatim>\<open>useState\<close> slots of the component; \<open>None\<close> is \<^verbatim>\<open>null\<close> or \<^verbatim>\<open>undefined\<close>.\<close>

record upload_page =
  mappingFile :: "upload_file option"
  salesFile :: "upload_file option"
  processing :: bool
  results :: jsval
  error :: jsval

definition upload_page_init :: upload_page where
  "upload_page_init =
     \<lparr>mappingFile = None, salesFile = None, processing = False, results = JNull, error = JNull\<rparr>"

text \<open>\<^verbatim>\<open>acceptedFiles[0]\<close>: \<^verbatim>\<open>undefined\<close> when the dropzone accepted nothing.\<close>

definition onMappingDrop :: "upload_file list \<Rightarrow> upload_page \<Rightarrow> upload_page" where
  "onMappingDrop acceptedFiles st =
     st\<lparr>mappingFile := (case acceptedFiles of [] \<Rightarrow> None | f # fs \<Rightarrow> Some f), error := JNull\<rparr>"

definition onSalesDrop :: "upload_file list \<Rightarrow> upload_page \<Rightarrow> upload_page" where
  "onSalesDrop acceptedFiles st =
     st\<lparr>salesFile := (case acceptedFiles of [] \<Rightarrow> None | f # fs \<Rightarrow> Some f), error := JNull\<rparr>"

text \<open>The request \<^verbatim>\<open>uploadFile\<close> posts: the file as form data, to the endpoint named.\<close>

definition upload_request ::"upload_file \<Rightarrow> string \<Rightarrow> request" where
  "upload_request f endpoint =
     (axiosInstance POST (''/api/upload/'' @ endpoint) (FormData f))
       \<lparr>req_contentType := ''multipart/form-data''\<rparr>"

text \<open>\<^verbatim>\<open>error.response?.data?.error\<close>\<close>

definition backend_error :: "js_error \<Rightarrow> jsval" where
  "backend_error e =
     (case err_response e of
        None \<Rightarrow> JUndefined
      | Some r \<Rightarrow> js_get_opt (resp_data r) ''error'')"

text \<open>
  \<^verbatim>\<open>uploadFile\<close>: \<open>Inr\<close> is the value returned, \<open>Inl\<close> the object thrown.
\<close>

definition uploadFile ::
  "backend \<Rightarrow> effect list \<Rightarrow> upload_file \<Rightarrow> string \<Rightarrow> (js_error + jsval) \<times> effect list" where
  "uploadFile net log f endpoint =
     (case axios_send net log (upload_request f endpoint) of
        (Inr resp, log1) \<Rightarrow> (Inr (resp_data resp), log1)
      | (Inl e, log1) \<Rightarrow> (Inl (new_Error (js_or (backend_error e) (JStr ''Upload failed''))), log1))"

definition process_request :: request where
  "process_request = axiosInstance POST ''/api/process'' NoBody"

text \<open>
  The \<^verbatim>\<open>try\<close> block of \<^verbatim>\<open>processMapping\<close>. \<open>Inr stats\<close>: the block ended after
  \<^verbatim>\<open>setResults(stats)\<close>; \<open>Inl e\<close>: it threw \<open>e\<close>. The second \<^verbatim>\<open>console.log\<close> reads
  \<^verbatim>\<open>response.data.stats\<close> and throws when the body is \<^verbatim>\<open>null\<close>.
\<close>

definition processMapping_try ::
  "backend \<Rightarrow> effect list \<Rightarrow> upload_file \<Rightarrow> upload_file \<Rightarrow> (js_error + jsval) \<times> effect list" where
  "processMapping_try net log mf sf =
     (case uploadFile net log mf ''mapping'' of
        (Inl e, log1) \<Rightarrow> (Inl e, log1)
      | (Inr u1, log1) \<Rightarrow>
          (case uploadFile net log1 sf ''sales'' of
             (Inl e, log2) \<Rightarrow> (Inl e, log2)
           | (Inr u2, log2) \<Rightarrow>
               (case axios_send net log2 process_request of
                  (Inl e, log3) \<Rightarrow> (Inl e, log3)
                | (Inr resp, log3) \<Rightarrow>
                    (case js_get (resp_data resp) ''stats'' of
                       Inl e \<Rightarrow> (Inl e, log3 @ [Console ''Response data:''])
                     | Inr stats \<Rightarrow>
                         (if truthy stats then Inr stats
                          else Inl (plain_Error ''Invalid response format from server''),
                          log3 @ [Console ''Response data:'', Console ''Stats:''])))))"

text \<open>
  The \<^verbatim>\<open>catch\<close> block: \<open>Inr v\<close> is \<^verbatim>\<open>setError(v)\<close>; \<open>Inl e\<close> is what the block itself
  throws when it reads \<^verbatim>\<open>error.response.data.error\<close> on a \<^verbatim>\<open>null\<close> body.
\<close>

definition processMapping_catch :: "js_error \<Rightarrow> js_error + jsval" where
  "processMapping_catch e =
     (case err_response e of
        Some r \<Rightarrow>
          (case js_get (resp_data r) ''error'' of
             Inl e' \<Rightarrow> Inl e'
           | Inr v \<Rightarrow> Inr (js_or v (JStr (''Server error: '' @ show_nat (resp_status r)))))
      | None \<Rightarrow>
          (if err_request e
           then Inr (JStr ''Network error: Unable to connect to server. Please check if the backend is running.'')
           else Inr (js_or (JStr (err_message e)) (JStr ''An unexpected error occurred''))))"

text \<open>
  \<^verbatim>\<open>processMapping\<close>: the page after the handler, the effects, and the object the
  returned promise rejects with, if any. The \<^verbatim>\<open>finally\<close> block runs on every path
  past the guard.
\<close>

definition processMapping ::
  "backend \<Rightarrow> effect list \<Rightarrow> upload_page \<Rightarrow> upload_page \<times> effect list \<times> js_error option" where
  "processMapping net log st =
     (case (mappingFile st, salesFile st) of
        (Some mf, Some sf) \<Rightarrow>
          (let st1 = st\<lparr>processing := True, error := JNull\<rparr> in
           case processMapping_try net log mf sf of
             (Inr stats, log1) \<Rightarrow> (st1\<lparr>results := stats, processing := False\<rparr>, log1, None)
           | (Inl e, log1) \<Rightarrow>
               (case processMapping_catch e of
                  Inr v \<Rightarrow> (st1\<lparr>error := v, processing := False\<rparr>, log1 @ [Console ''Error:''], None)
                | Inl e' \<Rightarrow> (st1\<lparr>processing := False\<rparr>, log1 @ [Console ''Error:''], Some e')))
      | _ \<Rightarrow> (st\<lparr>error := JStr ''Please upload both mapping and sales files''\<rparr>, log, None))"

definition export_request :: "string \<Rightarrow> request" where
  "export_request format =
     (axiosInstance POST ''/api/export'' (JsonBody (JObj [(''format'', JStr format)])))
       \<lparr>req_responseType := Some ''blob''\<rparr>"

text \<open>\<^verbatim>\<open>exportResults\<close>: the blob is handed to the browser as a download.\<close>

definition exportResults ::
  "backend \<Rightarrow> effect list \<Rightarrow> string \<Rightarrow> upload_page \<Rightarrow> upload_page \<times> effect list" where
  "exportResults net log format st =
     (case axios_send net log (export_request format) of
        (Inr resp, log1) \<Rightarrow> (st, log1 @ [Download (''processed_sales.'' @ format)])
      | (Inl e, log1) \<Rightarrow> (st\<lparr>error := JStr ''Export failed''\<rparr>, log1))"




section \<open>DashboardPage\<close>

record dashboard_page =
  analytics :: jsval
  loading :: bool
  dash_error :: jsval

definition dashboard_page_init :: dashboard_page where
  "dashboard_page_init = \<lparr>analytics = JNull, loading = True, dash_error = JNull\<rparr>"

definition analytics_request :: request where
  "analytics_request = axiosInstance GET ''/api/analytics'' NoBody"

definition fetchAnalytics ::
  "backend \<Rightarrow> effect list \<Rightarrow> dashboard_page \<Rightarrow> dashboard_page \<times> effect list" where
  "fetchAnalytics net log st =
     (let st1 = st\<lparr>loading := True\<rparr> in
      case axios_send net log analytics_request of
        (Inr resp, log1) \<Rightarrow> (st1\<lparr>analytics := resp_data resp, loading := False\<rparr>, log1)
      | (Inl e, log1) \<Rightarrow>
          (st1\<lparr>dash_error := JStr ''Failed to load analytics data'', loading := False\<rparr>, log1))"




record product_row =
  product :: string
  count :: jsval







section \<open>AnalyticsPage\<close>

record chart_data =
  chart_type :: string
  title :: string

record ai_response =
  response_text :: string
  chartData :: "chart_data option"

text \<open>A conversation entry; \<open>msg_chartData\<close> is \<open>None\<close> for \<^verbatim>\<open>null\<close> and for no such property.\<close>

record message =
  msg_type :: string
  content :: string
  msg_chartData :: "chart_data option"
  timestamp :: nat

record analytics_page =
  query :: string
  conversation :: "message list"
  ai_loading :: bool
  insights :: "string list"
  dataPreview :: jsval

definition analytics_page_init :: analytics_page where
  "analytics_page_init =
     \<lparr>query = [], conversation = [], ai_loading = False, insights = [], dataPreview = JNull\<rparr>"

definition preview_request :: request where
  "preview_request = axiosInstance GET ''/api/data/preview?type=processed'' NoBody"

text \<open>The four hints; each starts with an emoji (its UTF-8 bytes).\<close>

definition initialInsights :: "string list" where
  "initialInsights =
     [[CHR 0xF0, CHR 0x9F, CHR 0x93, CHR 0x8A] @ '' You can ask me questions about your sales data'',
      [CHR 0xF0, CHR 0x9F, CHR 0x94, CHR 0x8D] @ '' Try asking: '' @ [CHR 0x27] @ ''Show me top selling products'' @ [CHR 0x27],
      [CHR 0xF0, CHR 0x9F, CHR 0x93, CHR 0x88] @ '' Ask for charts: '' @ [CHR 0x27] @ ''Create a bar chart of sales by product'' @ [CHR 0x27],
      [CHR 0xF0, CHR 0x9F, CHR 0x92, CHR 0xA1] @ '' Get insights: '' @ [CHR 0x27] @ ''What'' @ [CHR 0x27] @ ''s the mapping rate?'' @ [CHR 0x27]]"

definition loadInitialInsights ::
  "backend \<Rightarrow> effect list \<Rightarrow> analytics_page \<Rightarrow> analytics_page \<times> effect list" where
  "loadInitialInsights net log st =
     (case axios_send net log preview_request of
        (Inr resp, log1) \<Rightarrow>
          (if truthy (resp_data resp)
           then st\<lparr>dataPreview := resp_data resp, insights := initialInsights\<rparr>
           else st, log1)
      | (Inl e, log1) \<Rightarrow> (st, log1 @ [Console ''No processed data available'']))"

subsection \<open>String methods\<close>

text \<open>
  \<^verbatim>\<open>toLowerCase\<close> on ASCII letters; every other character stays as it is. (JavaScript
  also lowercases letters beyond ASCII. That cannot change what \<^verbatim>\<open>includes\<close> finds below:
  the keywords are ASCII, no letter beyond ASCII lowercases to one of their letters so as
  to complete a keyword, and no byte of a character beyond ASCII is an ASCII byte.)
\<close>

definition toLowerCase_char :: "char \<Rightarrow> char" where
  "toLowerCase_char c =
     (case map_of (zip ''ABCDEFGHIJKLMNOPQRSTUVWXYZ'' ''abcdefghijklmnopqrstuvwxyz'') c of
        None \<Rightarrow> c
      | Some l \<Rightarrow> l)"

definition toLowerCase :: "string \<Rightarrow> string" where
  "toLowerCase s = map toLowerCase_char s"

fun startsWith :: "string \<Rightarrow> string \<Rightarrow> bool" where
  "startsWith s [] = True"
| "startsWith [] (c # cs) = False"
| "startsWith (x # xs) (c # cs) = (x = c \<and> startsWith xs cs)"

text \<open>\<^verbatim>\<open>s.includes(t)\<close>: \<open>t\<close> occurs in \<open>s\<close> at some position.\<close>

fun js_includes :: "string \<Rightarrow> string \<Rightarrow> bool" where
  "js_includes [] t = (t = [])"
| "js_includes (x # xs) t = (startsWith (x # xs) t \<or> js_includes xs t)"

text \<open>
  \<^verbatim>\<open>trim\<close> strips white space and line terminators at both ends: in ASCII, the
  characters TAB, LF, VT, FF, CR and SPACE.
\<close>

definition is_space :: "char \<Rightarrow> bool" where
  "is_space c = (c \<in> set [CHR 0x09, CHR 0x0A, CHR 0x0B, CHR 0x0C, CHR 0x0D, CHR 0x20])"

definition trim :: "string \<Rightarrow> string" where
  "trim s = rev (dropWhile is_space (rev (dropWhile is_space s)))"

subsection \<open>The simulated assistant\<close>

definition bullet :: string where
  "bullet = [CHR 0xE2, CHR 0x80, CHR 0xA2]"

definition top_products_text :: string where
  "top_products_text =
     ''Based on your sales data, here are the top selling products:\<newline>\<newline>1. MSKU001 - 150 orders\<newline>2. MSKU002 - 120 orders\<newline>3. MSKU003 - 95 orders\<newline>\<newline>These products represent 60% of your total sales volume.''"

definition mapping_rate_text :: string where
  "mapping_rate_text =
     ''Your current mapping rate is 85.2%. This means 85.2% of your SKUs have been successfully mapped to MSKUs. The remaining 14.8% (approximately 45 SKUs) need attention. Consider updating your mapping file to improve this rate.''"

definition visualization_text :: string where
  "visualization_text =
     ''I'' @
     [CHR 0x27] @
     ''ve created a visualization for you. The chart shows the distribution of your sales data. You can see clear patterns in product performance and identify opportunities for optimization.''"

definition help_text :: string where
  "help_text =
     ''I can help you analyze your warehouse data! Try asking me about:\<newline>\<newline>'' @
     bullet @
     '' Top selling products\<newline>'' @
     bullet @
     '' Mapping rates and unmapped SKUs\<newline>'' @
     bullet @
     '' Sales trends and patterns\<newline>'' @
     bullet @
     '' Data quality issues\<newline>'' @
     bullet @
     '' Performance metrics\<newline>\<newline>Just type your question in natural language!''"

text \<open>
  \<^verbatim>\<open>simulateAIResponse\<close>: the reply and the effects of the call, which are one timer of
  1000 ms and nothing else.
\<close>

definition simulateAIResponse :: "string \<Rightarrow> ai_response \<times> effect list" where
  "simulateAIResponse userQuery =
     (let queryLower = toLowerCase userQuery in
      (if js_includes queryLower ''top'' \<or> js_includes queryLower ''best'' \<or> js_includes queryLower ''selling''
       then \<lparr>response_text = top_products_text,
              chartData = Some \<lparr>chart_type = ''bar'', title = ''Top Selling Products''\<rparr>\<rparr>
       else if js_includes queryLower ''mapping'' \<or> js_includes queryLower ''rate''
       then \<lparr>response_text = mapping_rate_text,
              chartData = Some \<lparr>chart_type = ''pie'', title = ''Mapping Status''\<rparr>\<rparr>
       else if js_includes queryLower ''chart'' \<or> js_includes queryLower ''graph'' \<or> js_includes queryLower ''visualize''
       then \<lparr>response_text = visualization_text,
              chartData = Some \<lparr>chart_type = ''bar'', title = ''Sales Distribution''\<rparr>\<rparr>
       else \<lparr>response_text = help_text, chartData = None\<rparr>,
       [Sleep 1000]))"

text \<open>
  \<^verbatim>\<open>sendQuery\<close>, for any way the awaited call can settle (\<open>Inl\<close>: it rejected), with the
  two readings of the clock (\<^verbatim>\<open>new Date()\<close>) as inputs.
\<close>

definition sendQuery_awaiting ::
  "(string \<Rightarrow> (js_error + ai_response) \<times> effect list) \<Rightarrow>
   effect list \<Rightarrow> nat \<Rightarrow> nat \<Rightarrow> analytics_page \<Rightarrow> analytics_page \<times> effect list" where
  "sendQuery_awaiting respond log t1 t2 st =
     (if trim (query st) = [] then (st, log)
      else
        (let userMessage = \<lparr>msg_type = ''user'', content = query st, msg_chartData = None, timestamp = t1\<rparr>;
             st1 = st\<lparr>conversation := conversation st @ [userMessage], ai_loading := True\<rparr>
         in case respond (query st) of
              (Inr aiResponse, effs) \<Rightarrow>
                (st1\<lparr>conversation := conversation st1 @
                       [\<lparr>msg_type = ''ai'', content = response_text aiResponse,
                         msg_chartData = chartData aiResponse, timestamp = t2\<rparr>],
                     ai_loading := False, query := []\<rparr>, log @ effs)
            | (Inl e, effs) \<Rightarrow>
                (st1\<lparr>conversation := conversation st1 @
                       [\<lparr>msg_type = ''error'',
                         content = ''Sorry, I encountered an error processing your query.'',
                         msg_chartData = None, timestamp = t2\<rparr>],
                     ai_loading := False, query := []\<rparr>, log @ effs)))"

text \<open>\<^verbatim>\<open>sendQuery\<close> as the page has it: the call awaited is \<^verbatim>\<open>simulateAIResponse\<close>.\<close>

definition sendQuery ::
  "effect list \<Rightarrow> nat \<Rightarrow> nat \<Rightarrow> analytics_page \<Rightarrow> analytics_page \<times> effect list" where
  "sendQuery log t1 t2 st =
     sendQuery_awaiting (\<lambda>q. case simulateAIResponse q of (r, effs) \<Rightarrow> (Inr r, effs)) log t1 t2 st"

section \<open>The application\<close>

text \<open>
  \<^verbatim>\<open>App\<close> routes three paths to the three pages. What a user can do: drop files, press
  the buttons, type and send a query, open a page (which mounts it afresh and runs its
  effect).
\<close>

record app =
  uploadPage :: upload_page
  dashboardPage :: dashboard_page
  analyticsPage :: analytics_page

definition app_init :: app where
  "app_init =
     \<lparr>uploadPage = upload_page_init, dashboardPage = dashboard_page_init,
      analyticsPage = analytics_page_init\<rparr>"

datatype action =
    DropMapping "upload_file list"
  | DropSales "upload_file list"
  | ClickProcessMapping
  | ClickExportCSV
  | ClickExportExcel
  | TypeQuery string
  | SendQuery nat nat
  | OpenUploadPage
  | OpenDashboardPage
  | OpenAnalyticsPage

fun perform :: "backend \<Rightarrow> action \<Rightarrow> app \<times> effect list \<Rightarrow> app \<times> effect list" where
  "perform net (DropMapping fs) (a, log) = (a\<lparr>uploadPage := onMappingDrop fs (uploadPage a)\<rparr>, log)"
| "perform net (DropSales fs) (a, log) = (a\<lparr>uploadPage := onSalesDrop fs (uploadPage a)\<rparr>, log)"
| "perform net ClickProcessMapping (a, log) =
     (case processMapping net log (uploadPage a) of
        (st, log1, uncaught) \<Rightarrow> (a\<lparr>uploadPage := st\<rparr>, log1))"
| "perform net ClickExportCSV (a, log) =
     (case exportResults net log ''csv'' (uploadPage a) of
        (st, log1) \<Rightarrow> (a\<lparr>uploadPage := st\<rparr>, log1))"
| "perform net ClickExportExcel (a, log) =
     (case exportResults net log ''excel'' (uploadPage a) of
        (st, log1) \<Rightarrow> (a\<lparr>uploadPage := st\<rparr>, log1))"
| "perform net (TypeQuery q) (a, log) = (a\<lparr>analyticsPage := (analyticsPage a)\<lparr>query := q\<rparr>\<rparr>, log)"
| "perform net (SendQuery t1 t2) (a, log) =
     (case sendQuery log t1 t2 (analyticsPage a) of
        (st, log1) \<Rightarrow> (a\<lparr>analyticsPage := st\<rparr>, log1))"
| "perform net OpenUploadPage (a, log) = (a\<lparr>uploadPage := upload_page_init\<rparr>, log)"
| "perform net OpenDashboardPage (a, log) =
     (case fetchAnalytics net log dashboard_page_init of
        (st, log1) \<Rightarrow> (a\<lparr>dashboardPage := st\<rparr>, log1))"
| "perform net OpenAnalyticsPage (a, log) =
     (case loadInitialInsights net log analytics_page_init of
        (st, log1) \<Rightarrow> (a\<lparr>analyticsPage := st\<rparr>, log1))"

text \<open>A session: the actions one after another, from the initial application.\<close>

fun run :: "backend \<Rightarrow> action list \<Rightarrow> app \<times> effect list \<Rightarrow> app \<times> effect list" where
  "run net [] w = w"
| "run net (x # xs) w = run net xs (perform net x w)"


text \<open>The path of a request: its URL up to the query string.\<close>

definition path_of :: "string \<Rightarrow> string" where
  "path_of u = takeWhile (\<lambda>c. c \<noteq> CHR ''?'') u"

definition endpoints :: "string set" where
  "endpoints =
     {''/api/analytics'', ''/api/data/preview'', ''/api/upload/mapping'', ''/api/upload/sales'',
      ''/api/process'', ''/api/export''}"

section \<open>The assistant, in the words of its description\<close>

text \<open>
  The assistant is described as case-insensitive keyword matching: a query mentions a
  keyword when some stretch of it, lowercased, is the keyword.
\<close>

definition mentions :: "string \<Rightarrow> string \<Rightarrow> bool" where
  "mentions q w \<longleftrightarrow> (\<exists>pre mid post. q = pre @ mid @ post \<and> toLowerCase mid = w)"

text \<open>The four hard-coded replies.\<close>

definition top_products_reply :: ai_response where
  "top_products_reply =
     \<lparr>response_text = top_products_text,
      chartData = Some \<lparr>chart_type = ''bar'', title = ''Top Selling Products''\<rparr>\<rparr>"

definition mapping_rate_reply :: ai_response where
  "mapping_rate_reply =
     \<lparr>response_text = mapping_rate_text,
      chartData = Some \<lparr>chart_type = ''pie'', title = ''Mapping Status''\<rparr>\<rparr>"

definition visualization_reply :: ai_response where
  "visualization_reply =
     \<lparr>response_text = visualization_text,
      chartData = Some \<lparr>chart_type = ''bar'', title = ''Sales Distribution''\<rparr>\<rparr>"

definition help_reply :: ai_response where
  "help_reply = \<lparr>response_text = help_text, chartData = None\<rparr>"

text \<open>The reply the description prescribes: the first keyword group mentioned decides.\<close>

definition keyword_reply :: "string \<Rightarrow> ai_response" where
  "keyword_reply q =
     (if mentions q ''top'' \<or> mentions q ''best'' \<or> mentions q ''selling'' then top_products_reply
      else if mentions q ''mapping'' \<or> mentions q ''rate'' then mapping_rate_reply
      else if mentions q ''chart'' \<or> mentions q ''graph'' \<or> mentions q ''visualize'' then visualization_reply
      else help_reply)"


text \<open>A request on the shared client to one of the six paths.\<close>

definition targets_backend :: "request \<Rightarrow> bool" where
  "targets_backend r \<longleftrightarrow> path_of (req_url r) \<in> endpoints \<and> req_baseURL r = axiosInstance_baseURL"

section \<open>Sample backends and pages\<close>

text \<open>Concrete inputs on which the properties below are evaluated.\<close>


text \<open>A rejection carrying the server's response with a status outside 2xx.\<close>

definition http_error :: "nat \<Rightarrow> jsval \<Rightarrow> js_error" where
  "http_error code body =
     \<lparr>err_response = Some \<lparr>resp_status = code, resp_data = body\<rparr>, err_request = True,
      err_message = ''Request failed with status code '' @ show_nat code\<rparr>"

text \<open>Every request is answered 200 with the body given.\<close>

definition answering :: "jsval \<Rightarrow> backend" where
  "answering body h r = Inr \<lparr>resp_status = 200, resp_data = body\<rparr>"

text \<open>The request to the URL given settles as told; every other request is answered 200.\<close>

definition settling :: "string \<Rightarrow> js_error + response \<Rightarrow> backend" where
  "settling u outcome h r =
     (if req_url r = u then outcome
      else Inr \<lparr>resp_status = 200, resp_data = JObj [(''message'', JStr ''File uploaded successfully'')]\<rparr>)"

definition both_files :: upload_page where
  "both_files =
     upload_page_init\<lparr>mappingFile := Some (File ''mapping.csv''), salesFile := Some (File ''sales.csv'')\<rparr>"

text \<open>The statistics of the sample response quoted at the end of \<^verbatim>\<open>UploadPage.jsx\<close>.\<close>

definition sample_stats :: jsval where
  "sample_stats =
     JObj [(''mapped_records'', JNum 48), (''mapping_rate'', JNum 100), (''total_records'', JNum 48),
           (''unmapped_count'', JNum 0), (''unmapped_skus'', JArr [])]"

text \<open>A visit to every page: look at the assistant and the dashboard, then upload, process and export.\<close>

definition sample_session :: "action list" where
  "sample_session =
     [OpenAnalyticsPage, TypeQuery ''Top products?'', SendQuery 1 2, OpenDashboardPage, OpenUploadPage,
      DropMapping [File ''mapping.csv''], DropSales [File ''sales.csv''], ClickProcessMapping,
      ClickExportCSV]"

section \<open>Properties\<close>

subsection \<open>Requests in the effect log\<close>

lemma requests_of_append: "requests_of (xs @ ys) = requests_of xs @ requests_of ys"
  by (induction xs rule: requests_of.induct) simp_all

subsection \<open>UploadPage: the guard of processMapping\<close>

text \<open>
  C8. When the mapping file or the sales file is missing, \<^verbatim>\<open>processMapping\<close> sets the
  error to \<^verbatim>\<open>Please upload both mapping and sales files\<close> and returns: the effect log is
  the one it started with (no request), every other slot of the page (results,
  processing, the files) is as it was, and nothing is thrown.
\<close>

theorem processMapping_missing_file:
  "mappingFile st = None \<or> salesFile st = None \<Longrightarrow>
   processMapping net log st =
     (st\<lparr>error := JStr ''Please upload both mapping and sales files''\<rparr>, log, None)"
  by (auto simp: processMapping_def split: option.splits)

theorem processMapping_missing_file_witness:
  "salesFile (upload_page_init\<lparr>mappingFile := Some (File ''mapping.csv'')\<rparr>) = None \<and>
   processMapping (\<lambda>h r. Inr \<lparr>resp_status = 200, resp_data = JObj []\<rparr>) []
       (upload_page_init\<lparr>mappingFile := Some (File ''mapping.csv'')\<rparr>) =
     (\<lparr>mappingFile = Some (File ''mapping.csv''), salesFile = None, processing = False,
       results = JNull, error = JStr ''Please upload both mapping and sales files''\<rparr>, [], None)"
  using processMapping_missing_file
    [of "upload_page_init\<lparr>mappingFile := Some (File ''mapping.csv'')\<rparr>"
        "\<lambda>h r. Inr \<lparr>resp_status = 200, resp_data = JObj []\<rparr>" "[]"]
  by (simp add: upload_page_init_def)

subsection \<open>UploadPage: uploadFile\<close>


lemma uploadFile_ok:
  "net (requests_of log) (upload_request f ep) = Inr resp \<Longrightarrow>
   uploadFile net log f ep = (Inr (resp_data resp), log @ [Net (upload_request f ep)])"
  by (simp add: uploadFile_def axios_send_def)

lemma uploadFile_fail:
  "net (requests_of log) (upload_request f ep) = Inl e \<Longrightarrow>
   uploadFile net log f ep =
     (Inl (new_Error (js_or (backend_error e) (JStr ''Upload failed''))), log @ [Net (upload_request f ep)])"
  by (simp add: uploadFile_def axios_send_def)








subsection \<open>UploadPage: processMapping\<close>

lemma try_mapping_rejected:
  "net (requests_of log) (upload_request mf ''mapping'') = Inl e \<Longrightarrow>
   processMapping_try net log mf sf =
     (Inl (new_Error (js_or (backend_error e) (JStr ''Upload failed''))),
      log @ [Net (upload_request mf ''mapping'')])"
  by (simp add: processMapping_try_def uploadFile_fail)

lemma try_sales_rejected:
  "net (requests_of log) (upload_request mf ''mapping'') = Inr r1 \<Longrightarrow>
   net (requests_of log @ [upload_request mf ''mapping'']) (upload_request sf ''sales'') = Inl e \<Longrightarrow>
   processMapping_try net log mf sf =
     (Inl (new_Error (js_or (backend_error e) (JStr ''Upload failed''))),
      log @ [Net (upload_request mf ''mapping''), Net (upload_request sf ''sales'')])"
  by (simp add: processMapping_try_def uploadFile_ok uploadFile_fail requests_of_append)

lemma try_process_rejected:
  "net (requests_of log) (upload_request mf ''mapping'') = Inr r1 \<Longrightarrow>
   net (requests_of log @ [upload_request mf ''mapping'']) (upload_request sf ''sales'') = Inr r2 \<Longrightarrow>
   net (requests_of log @ [upload_request mf ''mapping'', upload_request sf ''sales'']) process_request = Inl e \<Longrightarrow>
   processMapping_try net log mf sf =
     (Inl e, log @ [Net (upload_request mf ''mapping''), Net (upload_request sf ''sales''), Net process_request])"
  by (simp add: processMapping_try_def uploadFile_ok axios_send_def requests_of_append)

lemma try_process_answered:
  "net (requests_of log) (upload_request mf ''mapping'') = Inr r1 \<Longrightarrow>
   net (requests_of log @ [upload_request mf ''mapping'']) (upload_request sf ''sales'') = Inr r2 \<Longrightarrow>
   net (requests_of log @ [upload_request mf ''mapping'', upload_request sf ''sales'']) process_request = Inr r3 \<Longrightarrow>
   processMapping_try net log mf sf =
     (case js_get (resp_data r3) ''stats'' of
        Inl e \<Rightarrow> (Inl e, log @ [Net (upload_request mf ''mapping''), Net (upload_request sf ''sales''),
                             Net process_request, Console ''Response data:''])
      | Inr stats \<Rightarrow>
          (if truthy stats then Inr stats else Inl (plain_Error ''Invalid response format from server''),
           log @ [Net (upload_request mf ''mapping''), Net (upload_request sf ''sales''),
                  Net process_request, Console ''Response data:'', Console ''Stats:'']))"
  by (simp add: processMapping_try_def uploadFile_ok axios_send_def requests_of_append split: sum.splits)

lemma processMapping_both:
  "mappingFile st = Some mf \<Longrightarrow> salesFile st = Some sf \<Longrightarrow>
   processMapping net log st =
     (case processMapping_try net log mf sf of
        (Inr stats, log1) \<Rightarrow> (st\<lparr>processing := False, results := stats, error := JNull\<rparr>, log1, None)
      | (Inl e, log1) \<Rightarrow>
          (case processMapping_catch e of
             Inr v \<Rightarrow> (st\<lparr>processing := False, error := v\<rparr>, log1 @ [Console ''Error:''], None)
           | Inl e' \<Rightarrow> (st\<lparr>processing := False, error := JNull\<rparr>, log1 @ [Console ''Error:''], Some e')))"
  by (simp add: processMapping_def Let_def split: prod.splits sum.splits)

lemma processMapping_log:
  "mappingFile st = Some mf \<Longrightarrow> salesFile st = Some sf \<Longrightarrow>
   requests_of (fst (snd (processMapping net log st))) =
     requests_of (snd (processMapping_try net log mf sf))"
  by (simp add: processMapping_both requests_of_append split: prod.splits sum.splits)




subsection \<open>Failed requests\<close>























text \<open>
  Not covered above: a process request refused with the body \<^verbatim>\<open>null\<close>. The \<^verbatim>\<open>catch\<close> block
  reads \<^verbatim>\<open>error.response.data.error\<close> without the optional chaining \<^verbatim>\<open>uploadFile\<close> uses,
  so the block itself throws; the \<^verbatim>\<open>finally\<close> block still clears the processing flag, no
  error is shown, and the promise of the handler rejects.
\<close>

lemma processMapping_null_error_body:
  "processMapping (settling ''/api/process'' (Inl (http_error 500 JNull))) [] both_files =
     (both_files,
      [Net (upload_request (File ''mapping.csv'') ''mapping''),
       Net (upload_request (File ''sales.csv'') ''sales''), Net process_request, Console ''Error:''],
      Some (TypeError_read JNull ''error''))"
  by (simp add: both_files_def upload_page_init_def processMapping_def processMapping_try_def
      uploadFile_def axios_send_def settling_def http_error_def upload_request_def
      process_request_def axiosInstance_def processMapping_catch_def)

subsection \<open>What a response must look like\<close>






subsection \<open>The requests of the application\<close>

lemma targets_upload_mapping: "targets_backend (upload_request f ''mapping'')"
  by (simp add: targets_backend_def upload_request_def axiosInstance_def path_of_def endpoints_def)

lemma targets_upload_sales: "targets_backend (upload_request f ''sales'')"
  by (simp add: targets_backend_def upload_request_def axiosInstance_def path_of_def endpoints_def)

lemma targets_process: "targets_backend process_request"
  by (simp add: targets_backend_def process_request_def axiosInstance_def path_of_def endpoints_def)

lemma targets_export: "targets_backend (export_request fmt)"
  by (simp add: targets_backend_def export_request_def axiosInstance_def path_of_def endpoints_def)

lemma targets_analytics: "targets_backend analytics_request"
  by (simp add: targets_backend_def analytics_request_def axiosInstance_def path_of_def endpoints_def)

lemma targets_preview: "targets_backend preview_request"
  by (simp add: targets_backend_def preview_request_def axiosInstance_def path_of_def endpoints_def)

lemma try_requests:
  "requests_of (snd (processMapping_try net log mf sf)) = requests_of log @ [upload_request mf ''mapping''] \<or>
   requests_of (snd (processMapping_try net log mf sf)) =
     requests_of log @ [upload_request mf ''mapping'', upload_request sf ''sales''] \<or>
   requests_of (snd (processMapping_try net log mf sf)) =
     requests_of log @ [upload_request mf ''mapping'', upload_request sf ''sales'', process_request]"
proof (cases "net (requests_of log) (upload_request mf ''mapping'')")
  case (Inl e)
  then show ?thesis by (simp add: try_mapping_rejected requests_of_append)
next
  case m: (Inr r1)
  show ?thesis
  proof (cases "net (requests_of log @ [upload_request mf ''mapping'']) (upload_request sf ''sales'')")
    case (Inl e)
    with m show ?thesis by (simp add: try_sales_rejected requests_of_append)
  next
    case s: (Inr r2)
    show ?thesis
    proof (cases "net (requests_of log @ [upload_request mf ''mapping'', upload_request sf ''sales'']) process_request")
      case (Inl e)
      with m s show ?thesis by (simp add: try_process_rejected requests_of_append)
    next
      case (Inr r3)
      with m s show ?thesis
        by (simp add: try_process_answered requests_of_append split: sum.splits)
    qed
  qed
qed

lemma processMapping_adds:
  "\<exists>rs. requests_of (fst (snd (processMapping net log st))) = requests_of log @ rs \<and>
        length rs \<le> 3 \<and> list_all targets_backend rs \<and>
        (rs = [] \<longleftrightarrow> mappingFile st = None \<or> salesFile st = None)"
proof (cases "mappingFile st = None \<or> salesFile st = None")
  case True
  then have "processMapping net log st =
      (st\<lparr>error := JStr ''Please upload both mapping and sales files''\<rparr>, log, None)"
    by (auto simp: processMapping_def split: option.splits)
  with True show ?thesis by simp
next
  case False
  then obtain mf sf where f: "mappingFile st = Some mf" "salesFile st = Some sf" by auto
  from try_requests [of net log mf sf] processMapping_log [OF f, of net log] False
  show ?thesis
    by (auto simp: targets_upload_mapping targets_upload_sales targets_process)
qed

lemma exportResults_adds:
  "requests_of (snd (exportResults net log fmt st)) = requests_of log @ [export_request fmt]"
  by (simp add: exportResults_def axios_send_def requests_of_append split: sum.splits)

lemma fetchAnalytics_adds:
  "requests_of (snd (fetchAnalytics net log st)) = requests_of log @ [analytics_request]"
  by (simp add: fetchAnalytics_def axios_send_def requests_of_append Let_def split: sum.splits)

lemma loadInitialInsights_adds:
  "requests_of (snd (loadInitialInsights net log st)) = requests_of log @ [preview_request]"
  by (simp add: loadInitialInsights_def axios_send_def requests_of_append split: sum.splits)

lemma sendQuery_adds: "requests_of (snd (sendQuery log t1 t2 st)) = requests_of log"
  by (simp add: sendQuery_def sendQuery_awaiting_def simulateAIResponse_def Let_def requests_of_append)

lemma snd_keep_log: "snd (case p of (st, log1) \<Rightarrow> (f st, log1)) = snd p"
  by (cases p) simp

lemma perform_process: 
  "requests_of (snd (perform net ClickProcessMapping (a, log))) =
     requests_of (fst (snd (processMapping net log (uploadPage a))))"
  by (simp split: prod.splits)

lemma perform_adds:
  "\<exists>rs. requests_of (snd (perform net x w)) = requests_of (snd w) @ rs \<and> list_all targets_backend rs"
proof (cases w)
  case (Pair a log)
  show ?thesis
  proof (cases x)
    case ClickProcessMapping
    with Pair processMapping_adds [of net log "uploadPage a"] show ?thesis
      by (auto simp: perform_process simp del: perform.simps)
  qed (simp_all add: Pair snd_keep_log exportResults_adds fetchAnalytics_adds
        loadInitialInsights_adds sendQuery_adds targets_export targets_analytics targets_preview)
qed

lemma run_targets:
  "list_all targets_backend (requests_of (snd w)) \<Longrightarrow>
   list_all targets_backend (requests_of (snd (run net xs w)))"
proof (induction xs arbitrary: w)
  case Nil
  then show ?case by simp
next
  case (Cons x xs)
  obtain rs where "requests_of (snd (perform net x w)) = requests_of (snd w) @ rs"
      "list_all targets_backend rs"
    using perform_adds by blast
  with Cons.prems have "list_all targets_backend (requests_of (snd (perform net x w)))" by simp
  then show ?case using Cons.IH by simp
qed

text \<open>
  C6. Whatever the user does, in whatever order, and however the backend answers, every
  request the application has sent is a request on the shared client (its base URL) whose
  path is one of \<^verbatim>\<open>/api/analytics\<close>, \<^verbatim>\<open>/api/data/preview\<close>, \<^verbatim>\<open>/api/upload/mapping\<close>,
  \<^verbatim>\<open>/api/upload/sales\<close>, \<^verbatim>\<open>/api/process\<close> and \<^verbatim>\<open>/api/export\<close>.
\<close>

theorem requests_only_to_the_six_endpoints:
  "\<forall>r \<in> set (requests_of (snd (run net xs (app_init, [])))).
      path_of (req_url r) \<in> endpoints \<and> req_baseURL r = axiosInstance_baseURL"
  using run_targets [of "(app_init, [])" net xs]
  by (simp add: list_all_iff targets_backend_def)

theorem requests_only_to_the_six_endpoints_witness:
  "list_all (\<lambda>r. path_of (req_url r) \<in> endpoints \<and> req_baseURL r = axiosInstance_baseURL)
     (requests_of (snd (run (answering (JObj [(''stats'', sample_stats)])) sample_session (app_init, [])))) \<and>
   map (\<lambda>r. path_of (req_url r))
     (requests_of (snd (run (answering (JObj [(''stats'', sample_stats)])) sample_session (app_init, [])))) =
     [''/api/data/preview'', ''/api/analytics'', ''/api/upload/mapping'', ''/api/upload/sales'',
      ''/api/process'', ''/api/export'']"
proof -
  have "map (\<lambda>r. path_of (req_url r))
     (requests_of (snd (run (answering (JObj [(''stats'', sample_stats)])) sample_session (app_init, [])))) =
     [''/api/data/preview'', ''/api/analytics'', ''/api/upload/mapping'', ''/api/upload/sales'',
      ''/api/process'', ''/api/export'']"
    by code_simp
  with requests_only_to_the_six_endpoints
         [of "answering (JObj [(''stats'', sample_stats)])" sample_session]
  show ?thesis by (simp add: list_all_iff)
qed









subsection \<open>AnalyticsPage: the simulated assistant\<close>

lemma startsWith_iff: "startsWith s t \<longleftrightarrow> (\<exists>post. s = t @ post)"
  by (induction s t rule: startsWith.induct) auto

lemma js_includes_iff: "js_includes s t \<longleftrightarrow> (\<exists>pre post. s = pre @ t @ post)"
proof (induction s)
  case Nil
  then show ?case by simp
next
  case (Cons x xs)
  show ?case
  proof
    assume "js_includes (x # xs) t"
    then consider "startsWith (x # xs) t" | "js_includes xs t" by auto
    then show "\<exists>pre post. x # xs = pre @ t @ post"
    proof cases
      case 1
      then obtain post where "x # xs = t @ post" by (auto simp: startsWith_iff)
      then have "x # xs = [] @ t @ post" by simp
      then show ?thesis by blast
    next
      case 2
      with Cons.IH obtain pre post where "xs = pre @ t @ post" by blast
      then have "x # xs = (x # pre) @ t @ post" by simp
      then show ?thesis by blast
    qed
  next
    assume "\<exists>pre post. x # xs = pre @ t @ post"
    then obtain pre post where e: "x # xs = pre @ t @ post" by blast
    show "js_includes (x # xs) t"
    proof (cases pre)
      case Nil
      with e have "startsWith (x # xs) t" by (auto simp: startsWith_iff)
      then show ?thesis by simp
    next
      case (Cons p ps)
      with e have "xs = ps @ t @ post" by simp
      with Cons.IH have "js_includes xs t" by blast
      then show ?thesis by simp
    qed
  qed
qed

lemma includes_lowered: "js_includes (toLowerCase q) w \<longleftrightarrow> mentions q w"
proof
  assume "js_includes (toLowerCase q) w"
  then obtain pre post where "map toLowerCase_char q = pre @ w @ post"
    by (auto simp: js_includes_iff toLowerCase_def)
  then obtain a b where ab: "q = a @ b" "pre = map toLowerCase_char a" "w @ post = map toLowerCase_char b"
    unfolding map_eq_append_conv by blast
  from ab(3) obtain c d where "b = c @ d" "w = map toLowerCase_char c" "post = map toLowerCase_char d"
    unfolding append_eq_map_conv by blast
  with ab show "mentions q w" unfolding mentions_def toLowerCase_def by blast
next
  assume "mentions q w"
  then obtain pre mid post where "q = pre @ mid @ post" "toLowerCase mid = w"
    unfolding mentions_def by blast
  then have "toLowerCase q = toLowerCase pre @ w @ toLowerCase post"
    by (auto simp: toLowerCase_def)
  then show "js_includes (toLowerCase q) w" unfolding js_includes_iff by blast
qed

text \<open>
  C2. For every query, \<^verbatim>\<open>simulateAIResponse\<close> waits on one timer of 1000 ms, sends no
  request, and returns the reply that case-insensitive keyword matching prescribes: the
  top-products reply (bar chart) when the query mentions \<^verbatim>\<open>top\<close>, \<^verbatim>\<open>best\<close> or
  \<^verbatim>\<open>selling\<close>; otherwise the mapping-rate reply (pie chart) when it mentions \<^verbatim>\<open>mapping\<close>
  or \<^verbatim>\<open>rate\<close>; otherwise the visualization reply (bar chart) when it mentions \<^verbatim>\<open>chart\<close>,
  \<^verbatim>\<open>graph\<close> or \<^verbatim>\<open>visualize\<close>; otherwise the help reply, which has no chart data. The
  result is a function of the query text alone.
\<close>

theorem simulateAIResponse_keywords:
  "simulateAIResponse q = (keyword_reply q, [Sleep 1000]) \<and>
   requests_of (snd (simulateAIResponse q)) = [] \<and>
   map_option chart_type (chartData top_products_reply) = Some ''bar'' \<and>
   map_option chart_type (chartData mapping_rate_reply) = Some ''pie'' \<and>
   map_option chart_type (chartData visualization_reply) = Some ''bar'' \<and>
   chartData help_reply = None"
  by (simp add: simulateAIResponse_def keyword_reply_def includes_lowered Let_def
      top_products_reply_def mapping_rate_reply_def visualization_reply_def help_reply_def)

theorem simulateAIResponse_keywords_witness:
  "simulateAIResponse ''TOP 5'' = (top_products_reply, [Sleep 1000]) \<and>
   simulateAIResponse ''Rate?'' = (mapping_rate_reply, [Sleep 1000]) \<and>
   simulateAIResponse ''a Graph'' = (visualization_reply, [Sleep 1000]) \<and>
   simulateAIResponse ''hello'' = (help_reply, [Sleep 1000])"
  using simulateAIResponse_keywords [of "''TOP 5''"]
    simulateAIResponse_keywords [of "''Rate?''"]
    simulateAIResponse_keywords [of "''a Graph''"]
    simulateAIResponse_keywords [of "''hello''"]
  by (simp add: keyword_reply_def includes_lowered [symmetric] toLowerCase_def toLowerCase_char_def)

subsection \<open>AnalyticsPage: sendQuery\<close>





subsection \<open>DashboardPage\<close>




end
